theory Spec2Isabelle
  imports
    Main
    "HOL-Library.Word"
    "HOL-Library.Char_ord"
    "HOL-Library.List_Lexorder"
begin

unbundle bit_operations_syntax

section \<open>Package semver: versions, parsing, rendering and comparison\<close>

text \<open>
  Go strings are byte sequences; they are modelled as \<open>string\<close> (a list of 8-bit
  \<open>char\<close>s).  The character sets of the package are ASCII, so testing a string rune by
  rune against one of them (\<open>containsOnly\<close>) is the same as testing it byte by byte: a
  rune outside ASCII, or an invalid byte, contributes a byte of value 128 or more, which
  is in none of the sets.
\<close>

definition numbers :: string where
  "numbers = ''0123456789''"

definition alphas :: string where
  "alphas = ''abcdefghijklmnopqrstuvwxyzABCDEFGHIJKLMNOPQRSTUVWXYZ-''"

definition alphanum :: string where
  "alphanum = alphas @ numbers"

definition dot :: string where
  "dot = ''.''"

definition hyphen :: string where
  "hyphen = ''-''"

definition plus :: string where
  "plus = ''+''"

type_synonym uint64 = "64 word"

record PRVersion =
  VersionStr :: string
  VersionNum :: uint64
  IsNum :: bool

record Version =
  Major :: uint64
  Minor :: uint64
  Patch :: uint64
  Pre :: "PRVersion list"
  Build :: "string list"

datatype error =
    VersionStringEmpty
  | NoMajorMinorPatch
  | InvalidCharacters string string
  | LeadingZeroes string string
  | ErrSyntax string
  | ErrRange string
  | PrereleaseEmpty
  | BuildMetaDataEmpty

subsection \<open>The library functions the package calls\<close>

text \<open>
  \<open>strconv.FormatUint(n, 10)\<close>: the decimal digits of \<open>n\<close>, most significant first.
  The value of a \<open>uint64\<close> is read with \<open>uint\<close>, so the argument is never negative.
\<close>

definition digit_char :: "int \<Rightarrow> char" where
  "digit_char d = char_of (of_char (CHR ''0'') + d)"

function FormatUint :: "int \<Rightarrow> string" where
  "FormatUint n = (if n < 10 then [digit_char n] else FormatUint (n div 10) @ [digit_char (n mod 10)])"
  by pat_completeness auto
termination
  by (relation "measure nat") auto

declare FormatUint.simps [simp del]

text \<open>
  \<open>strconv.ParseUint(s, 10, 64)\<close>: a syntax error on the empty string and on any byte
  that is not a decimal digit, a range error when the value does not fit 64 bits.
\<close>

definition digit_val :: "char \<Rightarrow> int" where
  "digit_val c = of_char c - of_char (CHR ''0'')"

definition decimal_value :: "string \<Rightarrow> int" where
  "decimal_value s = foldl (\<lambda>acc c. 10 * acc + digit_val c) 0 s"

definition ParseUint :: "string \<Rightarrow> error + uint64" where
  "ParseUint s =
     (if s = [] then Inl (ErrSyntax s)
      else if \<not> list_all (\<lambda>c. c \<in> set numbers) s then Inl (ErrSyntax s)
      else if decimal_value s \<ge> 2 ^ 64 then Inl (ErrRange s)
      else Inr (word_of_int (decimal_value s)))"

text \<open>\<open>strings.Index(s, c)\<close> for a one-byte separator: the first position, or -1.\<close>

fun Index :: "string \<Rightarrow> char \<Rightarrow> int" where
  "Index [] c = -1"
| "Index (x # xs) c = (if x = c then 0 else (let i = Index xs c in if i = -1 then -1 else i + 1))"

text \<open>\<open>strings.Split(s, sep)\<close> for a one-byte separator: always at least one piece.\<close>

fun Split :: "string \<Rightarrow> char \<Rightarrow> string list" where
  "Split [] c = [[]]"
| "Split (x # xs) c =
     (if x = c then [] # Split xs c
      else (case Split xs c of p # ps \<Rightarrow> (x # p) # ps | [] \<Rightarrow> [[x]]))"

text \<open>
  \<open>strings.SplitN(s, sep, n)\<close> for a one-byte separator and \<open>n > 0\<close>: at most \<open>n\<close>
  pieces, the last one being the unsplit remainder.
\<close>

fun SplitN :: "string \<Rightarrow> char \<Rightarrow> nat \<Rightarrow> string list" where
  "SplitN s c 0 = []"
| "SplitN s c (Suc 0) = [s]"
| "SplitN [] c (Suc (Suc n)) = [[]]"
| "SplitN (x # xs) c (Suc (Suc n)) =
     (if x = c then [] # SplitN xs c (Suc n)
      else (case SplitN xs c (Suc (Suc n)) of p # ps \<Rightarrow> (x # p) # ps | [] \<Rightarrow> [[x]]))"

text \<open>\<open>strings.Join(elems, sep)\<close>.\<close>

fun Join :: "string list \<Rightarrow> string \<Rightarrow> string" where
  "Join [] sep = []"
| "Join [x] sep = x"
| "Join (x # y # ys) sep = x @ sep @ Join (y # ys) sep"

subsection \<open>containsOnly, hasLeadingZeroes\<close>

definition containsOnly :: "string \<Rightarrow> string \<Rightarrow> bool" where
  "containsOnly s cs = list_all (\<lambda>r. r \<in> set cs) s"

definition hasLeadingZeroes :: "string \<Rightarrow> bool" where
  "hasLeadingZeroes s = (length s > 1 \<and> hd s = CHR ''0'')"

subsection \<open>PRVersion\<close>

definition NewPRVersion :: "string \<Rightarrow> error + PRVersion" where
  "NewPRVersion s =
     (if length s = 0 then Inl PrereleaseEmpty
      else if containsOnly s numbers then
        (if hasLeadingZeroes s then Inl (LeadingZeroes ''prerelease'' s)
         else (case ParseUint s of
                 Inl e \<Rightarrow> Inl e
               | Inr num \<Rightarrow> Inr \<lparr>VersionStr = [], VersionNum = num, IsNum = True\<rparr>))
      else if containsOnly s alphanum then
        Inr \<lparr>VersionStr = s, VersionNum = 0, IsNum = False\<rparr>
      else Inl (InvalidCharacters ''prerelease'' s))"

definition PRVersion_Compare :: "PRVersion \<Rightarrow> PRVersion \<Rightarrow> int" where
  "PRVersion_Compare v o' =
     (if IsNum v \<and> \<not> IsNum o' then -1
      else if \<not> IsNum v \<and> IsNum o' then 1
      else if IsNum v \<and> IsNum o' then
        (if VersionNum v = VersionNum o' then 0
         else if VersionNum v > VersionNum o' then 1
         else -1)
      else
        (if VersionStr v = VersionStr o' then 0
         else if VersionStr v > VersionStr o' then 1
         else -1))"

definition PRVersion_String :: "PRVersion \<Rightarrow> string" where
  "PRVersion_String v = (if IsNum v then FormatUint (uint (VersionNum v)) else VersionStr v)"

subsection \<open>Version\<close>

text \<open>
  \<open>Version.String\<close> collects the pieces in \<open>versionArray\<close> and joins them with the
  empty separator.
\<close>

fun pre_pieces :: "nat \<Rightarrow> PRVersion list \<Rightarrow> string list" where
  "pre_pieces i [] = []"
| "pre_pieces i (pre # rest) =
     (if i > 0 then [dot] else []) @ [PRVersion_String pre] @ pre_pieces (Suc i) rest"

definition Version_String :: "Version \<Rightarrow> string" where
  "Version_String v =
     (let versionArray =
            [FormatUint (uint (Major v)), dot, FormatUint (uint (Minor v)), dot,
             FormatUint (uint (Patch v))];
          versionArray =
            (if length (Pre v) > 0 then versionArray @ [hyphen] @ pre_pieces 0 (Pre v)
             else versionArray);
          versionArray =
            (if length (Build v) > 0 then versionArray @ [plus, Join (Build v) dot]
             else versionArray)
      in Join versionArray [])"

text \<open>
  The loop of \<open>Version.Compare\<close> over the shared positions of the two prerelease
  sequences, followed by the comparison of what is left of them.
\<close>

fun compare_pre :: "PRVersion list \<Rightarrow> PRVersion list \<Rightarrow> int" where
  "compare_pre (x # xs) (y # ys) =
     (let comp = PRVersion_Compare x y
      in if comp = 0 then compare_pre xs ys
         else if comp = 1 then 1
         else -1)"
| "compare_pre [] [] = 0"
| "compare_pre [] (y # ys) = -1"
| "compare_pre (x # xs) [] = 1"

definition Version_Compare :: "Version \<Rightarrow> Version \<Rightarrow> int" where
  "Version_Compare v o' =
     (if Major v \<noteq> Major o' then (if Major v > Major o' then 1 else -1)
      else if Minor v \<noteq> Minor o' then (if Minor v > Minor o' then 1 else -1)
      else if Patch v \<noteq> Patch o' then (if Patch v > Patch o' then 1 else -1)
      else if length (Pre v) = 0 \<and> length (Pre o') = 0 then 0
      else if length (Pre v) = 0 \<and> length (Pre o') > 0 then 1
      else if length (Pre v) > 0 \<and> length (Pre o') = 0 then -1
      else compare_pre (Pre v) (Pre o'))"

definition GT :: "Version \<Rightarrow> Version \<Rightarrow> bool" where
  "GT v o' = (Version_Compare v o' = 1)"

definition GTE :: "Version \<Rightarrow> Version \<Rightarrow> bool" where
  "GTE v o' = (Version_Compare v o' \<ge> 0)"


definition LTE :: "Version \<Rightarrow> Version \<Rightarrow> bool" where
  "LTE v o' = (Version_Compare v o' \<le> 0)"

subsection \<open>Parse\<close>

fun parse_prs :: "string list \<Rightarrow> error + PRVersion list" where
  "parse_prs [] = Inr []"
| "parse_prs (prstr # rest) =
     (case NewPRVersion prstr of
        Inl e \<Rightarrow> Inl e
      | Inr parsedPR \<Rightarrow>
          (case parse_prs rest of Inl e \<Rightarrow> Inl e | Inr prs \<Rightarrow> Inr (parsedPR # prs)))"

fun parse_builds :: "string list \<Rightarrow> error + string list" where
  "parse_builds [] = Inr []"
| "parse_builds (str # rest) =
     (if length str = 0 then Inl BuildMetaDataEmpty
      else if \<not> containsOnly str alphanum then Inl (InvalidCharacters ''build meta data'' str)
      else (case parse_builds rest of Inl e \<Rightarrow> Inl e | Inr bs \<Rightarrow> Inr (str # bs)))"

text \<open>A numeric field: the character check, the leading-zero check, then \<open>ParseUint\<close>.\<close>

definition parse_number :: "string \<Rightarrow> string \<Rightarrow> error + uint64" where
  "parse_number field s =
     (if \<not> containsOnly s numbers then Inl (InvalidCharacters field s)
      else if hasLeadingZeroes s then Inl (LeadingZeroes field s)
      else ParseUint s)"

text \<open>Go's slice expressions \<open>s[:j]\<close> and \<open>s[i:j]\<close>, for indices within range.\<close>

definition slice :: "string \<Rightarrow> int \<Rightarrow> int \<Rightarrow> string" where
  "slice s i j = drop (nat i) (take (nat j) s)"

text \<open>
  Where the patch number ends and whether a prerelease part follows: the pair
  \<open>(subVersionIndex, preIndex)\<close> after the case distinction on the two separators.
\<close>

definition sub_version_index :: "string \<Rightarrow> int \<Rightarrow> int \<Rightarrow> int \<times> int" where
  "sub_version_index p2 preIndex buildIndex =
     (if preIndex \<noteq> -1 \<and> buildIndex = -1 then (preIndex, preIndex)
      else if preIndex = -1 \<and> buildIndex \<noteq> -1 then (buildIndex, preIndex)
      else if preIndex = -1 \<and> buildIndex = -1 then (int (length p2), preIndex)
      else if buildIndex < preIndex then (buildIndex, -1)
      else (preIndex, preIndex))"

definition parse_pre_part :: "string \<Rightarrow> int \<Rightarrow> int \<Rightarrow> int \<Rightarrow> error + PRVersion list" where
  "parse_pre_part p2 subVersionIndex preIndex buildIndex =
     (if preIndex \<noteq> -1 then
        (let preRels =
               (if buildIndex \<noteq> -1 then slice p2 (subVersionIndex + 1) buildIndex
                else slice p2 (subVersionIndex + 1) (int (length p2)))
         in parse_prs (Split preRels (CHR ''.'')))
      else Inr [])"

definition parse_build_part :: "string \<Rightarrow> int \<Rightarrow> error + string list" where
  "parse_build_part p2 buildIndex =
     (if buildIndex \<noteq> -1 then
        parse_builds (Split (slice p2 (buildIndex + 1) (int (length p2))) (CHR ''.''))
      else Inr [])"

definition parse_patch_pre_build :: "uint64 \<Rightarrow> uint64 \<Rightarrow> string \<Rightarrow> error + Version" where
  "parse_patch_pre_build major minor p2 =
     (let preIndex0 = Index p2 (CHR ''-'');
          buildIndex = Index p2 (CHR ''+'');
          (subVersionIndex, preIndex) = sub_version_index p2 preIndex0 buildIndex
      in (case parse_number ''patch'' (slice p2 0 subVersionIndex) of
            Inl e \<Rightarrow> Inl e
          | Inr patch \<Rightarrow>
             (case parse_pre_part p2 subVersionIndex preIndex buildIndex of
                Inl e \<Rightarrow> Inl e
              | Inr pre \<Rightarrow>
                 (case parse_build_part p2 buildIndex of
                    Inl e \<Rightarrow> Inl e
                  | Inr build \<Rightarrow>
                      Inr \<lparr>Major = major, Minor = minor, Patch = patch,
                           Pre = pre, Build = build\<rparr>))))"

text \<open>
  \<open>Parse\<close> starts with \<open>strings.Replace(s, "v", "", 1)\<close>, which deletes the first
  \<open>v\<close> of the string wherever it stands: that is \<open>remove1\<close>.
\<close>

definition Parse :: "string \<Rightarrow> error + Version" where
  "Parse s0 =
     (let s = remove1 (CHR ''v'') s0 in
      if length s = 0 then Inl VersionStringEmpty
      else
        (let parts = SplitN s (CHR ''.'') 3 in
         if length parts \<noteq> 3 then Inl NoMajorMinorPatch
         else
           (case parse_number ''major'' (parts ! 0) of
              Inl e \<Rightarrow> Inl e
            | Inr major \<Rightarrow>
               (case parse_number ''minor'' (parts ! 1) of
                  Inl e \<Rightarrow> Inl e
                | Inr minor \<Rightarrow> parse_patch_pre_build major minor (parts ! 2)))))"


subsection \<open>The comparison rules as the specification words them\<close>

text \<open>
  The following definitions are not taken from the source: they restate the rules of the
  specification for prerelease identifiers, to be compared with \<open>Version_Compare\<close>.
  Numeric identifiers compare by magnitude, alphanumeric ones lexicographically, and a
  numeric identifier is less than an alphanumeric one.
\<close>

definition spec_identifier_less :: "PRVersion \<Rightarrow> PRVersion \<Rightarrow> bool" where
  "spec_identifier_less a b =
     (if IsNum a \<and> IsNum b then uint (VersionNum a) < uint (VersionNum b)
      else if \<not> IsNum a \<and> \<not> IsNum b then VersionStr a < VersionStr b
      else IsNum a \<and> \<not> IsNum b)"

definition spec_identifier_equal :: "PRVersion \<Rightarrow> PRVersion \<Rightarrow> bool" where
  "spec_identifier_equal a b =
     (if IsNum a \<and> IsNum b then uint (VersionNum a) = uint (VersionNum b)
      else if \<not> IsNum a \<and> \<not> IsNum b then VersionStr a = VersionStr b
      else False)"

definition spec_prerelease_less :: "PRVersion list \<Rightarrow> PRVersion list \<Rightarrow> bool" where
  "spec_prerelease_less xs ys =
     ((\<exists>i \<in> {0..<min (length xs) (length ys)}.
         (\<forall>j \<in> {0..<i}. spec_identifier_equal (xs ! j) (ys ! j)) \<and>
         spec_identifier_less (xs ! i) (ys ! i))
      \<or> ((\<forall>j \<in> {0..<min (length xs) (length ys)}. spec_identifier_equal (xs ! j) (ys ! j)) \<and>
          length xs < length ys))"

text \<open>Parsing two strings and comparing the results, as a test of the package would.\<close>

definition compare_strings :: "string \<Rightarrow> string \<Rightarrow> error + int" where
  "compare_strings s t =
     (case Parse s of
        Inl e \<Rightarrow> Inl e
      | Inr a \<Rightarrow> (case Parse t of Inl e \<Rightarrow> Inl e | Inr b \<Rightarrow> Inr (Version_Compare a b)))"

section \<open>Package encoding: ToUTF8\<close>

text \<open>
  \<open>ToUTF8\<close> allocates a buffer as long as the string, ranges over the string rune by
  rune and writes each rune back with \<open>utf8.EncodeRune\<close>.  A string is a sequence of
  bytes, a rune a 32-bit value.  A Go panic (an index out of range) is the value \<open>None\<close>.
\<close>

type_synonym byte = "8 word"
type_synonym rune = "32 word"

definition RuneError :: rune where
  "RuneError = 0xFFFD"

definition locb :: byte where
  "locb = 0x80"

definition hicb :: byte where
  "hicb = 0xBF"

definition continuation :: "byte \<Rightarrow> bool" where
  "continuation c = (locb \<le> c \<and> c \<le> hicb)"

text \<open>
  The step of a \<open>range\<close> loop over a string, as the Go runtime decodes it: the rune at
  the head of a non-empty string and the number of bytes it takes.  A byte below 0x80
  is itself; a well-formed sequence of two, three or four bytes gives its code point,
  unless that is over-long, a surrogate or beyond U+10FFFF; anything else gives
  \<open>RuneError\<close> and advances by one byte.
\<close>

definition decoderune :: "byte list \<Rightarrow> rune \<times> nat" where
  "decoderune s =
     (let s0 = s ! 0 in
      if s0 < 0x80 then (ucast s0, 1)
      else if 0xC0 \<le> s0 \<and> s0 < 0xE0 then
        (if length s > 1 \<and> continuation (s ! 1) then
           (let r = push_bit 6 (ucast (s0 AND 0x1F)) OR ucast ((s ! 1) AND 0x3F) in
            if 0x7F < r then (r, 2) else (RuneError, 1))
         else (RuneError, 1))
      else if 0xE0 \<le> s0 \<and> s0 < 0xF0 then
        (if length s > 2 \<and> continuation (s ! 1) \<and> continuation (s ! 2) then
           (let r = push_bit 12 (ucast (s0 AND 0x0F)) OR push_bit 6 (ucast ((s ! 1) AND 0x3F))
                    OR ucast ((s ! 2) AND 0x3F) in
            if 0x7FF < r \<and> \<not> (0xD800 \<le> r \<and> r \<le> 0xDFFF) then (r, 3) else (RuneError, 1))
         else (RuneError, 1))
      else if 0xF0 \<le> s0 \<and> s0 < 0xF8 then
        (if length s > 3 \<and> continuation (s ! 1) \<and> continuation (s ! 2) \<and> continuation (s ! 3) then
           (let r = push_bit 18 (ucast (s0 AND 0x07)) OR push_bit 12 (ucast ((s ! 1) AND 0x3F))
                    OR push_bit 6 (ucast ((s ! 2) AND 0x3F)) OR ucast ((s ! 3) AND 0x3F) in
            if 0xFFFF < r \<and> r \<le> 0x10FFFF then (r, 4) else (RuneError, 1))
         else (RuneError, 1))
      else (RuneError, 1))"

text \<open>
  \<open>utf8.EncodeRune(p, r)\<close> writes the encoding of \<open>r\<close> at the start of \<open>p\<close> and returns
  its length; it panics when \<open>p\<close> is shorter than the encoding.  A rune that is a
  surrogate or beyond U+10FFFF is written as \<open>RuneError\<close>.
\<close>

definition encoding :: "rune \<Rightarrow> byte list" where
  "encoding r =
     (if r \<le> 0x7F then [ucast r]
      else if r \<le> 0x7FF then
        [0xC0 OR ucast (drop_bit 6 r), 0x80 OR (ucast r AND 0x3F)]
      else if r > 0x10FFFF \<or> (0xD800 \<le> r \<and> r \<le> 0xDFFF) then [0xEF, 0xBF, 0xBD]
      else if r \<le> 0xFFFF then
        [0xE0 OR ucast (drop_bit 12 r), 0x80 OR (ucast (drop_bit 6 r) AND 0x3F),
         0x80 OR (ucast r AND 0x3F)]
      else
        [0xF0 OR ucast (drop_bit 18 r), 0x80 OR (ucast (drop_bit 12 r) AND 0x3F),
         0x80 OR (ucast (drop_bit 6 r) AND 0x3F), 0x80 OR (ucast r AND 0x3F)])"

definition EncodeRune :: "byte list \<Rightarrow> rune \<Rightarrow> (byte list \<times> nat) option" where
  "EncodeRune p r =
     (let e = encoding r in
      if length p < length e then None
      else Some (e @ drop (length e) p, length e))"

text \<open>
  The loop \<open>for _, r := range content { i += utf8.EncodeRune(b[i:], r) }\<close>: the rest of
  the string, the buffer and the write position.  The slice \<open>b[i:]\<close> itself panics when
  \<open>i\<close> is beyond the buffer.
\<close>

function range_loop :: "byte list \<Rightarrow> byte list \<Rightarrow> nat \<Rightarrow> (byte list \<times> nat) option" where
  "range_loop [] b i = Some (b, i)"
| "range_loop (c # cs) b i =
     (if i > length b then None
      else (case EncodeRune (drop i b) (fst (decoderune (c # cs))) of
              None \<Rightarrow> None
            | Some (p, n) \<Rightarrow> range_loop (drop (snd (decoderune (c # cs))) (c # cs)) (take i b @ p) (i + n)))"
  by pat_completeness auto
termination
proof (relation "measure (\<lambda>(s, b, i). length s)")
  show "wf (measure (\<lambda>(s, b, i). length s))"
    by simp
next
  fix c :: byte and cs b :: "byte list" and i :: nat and x2 :: "byte list \<times> nat" and p n
  show "((drop (snd (decoderune (c # cs))) (c # cs), take i b @ p, i + n), c # cs, b, i)
          \<in> measure (\<lambda>(s, b, i). length s)"
    by (simp add: decoderune_def Let_def)
qed

declare range_loop.simps [simp del]

definition ToUTF8 :: "byte list \<Rightarrow> byte list option" where
  "ToUTF8 content =
     (let b = replicate (length content) 0 in
      case range_loop content b 0 of
        None \<Rightarrow> None
      | Some (b', i) \<Rightarrow> Some (take i b'))"

section \<open>Zip extraction: file.Unzip and the update engine's unzip\<close>

text \<open>
  A path is modelled by the list of its elements below the root of the volume, so a
  path in this form is already clean.  A file system maps a path to what is there: a
  directory or a file with its contents; the root is a directory.
\<close>

type_synonym path = "string list"

datatype node = Dir | File string

type_synonym filesystem = "path \<rightharpoonup> node"

datatype io_error =
    ErrNotADirectory path
  | ErrIsADirectory path
  | ErrNotExist path
  | ErrZipFormat
  | ErrZipEntry string
  | ErrHTTP string
  | ErrOther string

text \<open>
  What \<open>zip.OpenReader\<close> yields for one entry of the archive: its name, whether
  \<open>f.FileInfo().IsDir()\<close> holds, its data, whether \<open>f.Open()\<close> fails, and after how
  many bytes reading the data fails, if it does.
\<close>

record zip_entry =
  Name :: string
  EntryIsDir :: bool
  Body :: string
  OpenError :: bool
  ReadError :: "nat option"

subsection \<open>Library functions\<close>

text \<open>\<open>strings.Contains(s, substr)\<close>.\<close>

fun Contains :: "string \<Rightarrow> string \<Rightarrow> bool" where
  "Contains [] sub = (sub = [])"
| "Contains (x # xs) sub = (take (length sub) (x # xs) = sub \<or> Contains xs sub)"

text \<open>
  On Windows both the backslash and the slash separate the elements of a path.
  \<open>filepath.Join(dest, name)\<close> is \<open>filepath.Clean\<close> of the two joined by a separator:
  empty elements and \<open>.\<close> are dropped, \<open>..\<close> removes the element before it, and at the
  root \<open>..\<close> is dropped.
\<close>

definition IsPathSeparator :: "char \<Rightarrow> bool" where
  "IsPathSeparator c = (c = CHR 0x5C \<or> c = CHR ''/'')"

fun elements :: "string \<Rightarrow> string list" where
  "elements [] = [[]]"
| "elements (x # xs) =
     (if IsPathSeparator x then [] # elements xs
      else (case elements xs of p # ps \<Rightarrow> (x # p) # ps | [] \<Rightarrow> [[x]]))"

fun Clean :: "path \<Rightarrow> string list \<Rightarrow> path" where
  "Clean acc [] = acc"
| "Clean acc (e # es) =
     (if e = [] \<or> e = ''.'' then Clean acc es
      else if e = ''..'' then Clean (butlast acc) es
      else Clean (acc @ [e]) es)"

definition filepath_Join :: "path \<Rightarrow> string \<Rightarrow> path" where
  "filepath_Join dest name = Clean dest (elements name)"

definition filepath_Dir :: "path \<Rightarrow> path" where
  "filepath_Dir p = butlast p"

text \<open>
  \<open>os.MkdirAll\<close> fails, creating nothing, when the path or one of the paths above it is
  a file; otherwise every missing directory down to the path exists afterwards.
\<close>

definition upto_path :: "path \<Rightarrow> path list" where
  "upto_path p = map (\<lambda>n. take n p) [1..<Suc (length p)]"

definition MkdirAll :: "filesystem \<Rightarrow> path \<Rightarrow> io_error + filesystem" where
  "MkdirAll fs p =
     (case find (\<lambda>q. case fs q of Some (File c) \<Rightarrow> True | _ \<Rightarrow> False) (upto_path p) of
        Some q \<Rightarrow> Inl (ErrNotADirectory q)
      | None \<Rightarrow> Inr (foldl (\<lambda>fs' q. fs'(q \<mapsto> Dir)) fs (upto_path p)))"

text \<open>
  \<open>os.Create\<close>, and \<open>os.OpenFile\<close> with \<open>O_WRONLY|O_CREATE|O_TRUNC\<close>: the directory
  above must exist and the path must not be a directory; the file is then empty.
\<close>

definition is_dir :: "filesystem \<Rightarrow> path \<Rightarrow> bool" where
  "is_dir fs p = (p = [] \<or> fs p = Some Dir)"

definition os_Create :: "filesystem \<Rightarrow> path \<Rightarrow> io_error + filesystem" where
  "os_Create fs p =
     (if is_dir fs p then Inl (ErrIsADirectory p)
      else if \<not> is_dir fs (butlast p) then Inl (ErrNotExist p)
      else Inr (fs(p \<mapsto> File [])))"

text \<open>
  \<open>io.Copy(dst, rc)\<close> from an entry of the archive into the file just created: all of
  the data, or the bytes read before the error.
\<close>

definition io_Copy :: "filesystem \<Rightarrow> path \<Rightarrow> zip_entry \<Rightarrow> io_error option \<times> filesystem" where
  "io_Copy fs p f =
     (case ReadError f of
        None \<Rightarrow> (None, fs(p \<mapsto> File (Body f)))
      | Some k \<Rightarrow> (Some (ErrZipEntry (Name f)), fs(p \<mapsto> File (take k (Body f)))))"

subsection \<open>file.Unzip\<close>

text \<open>
  How the call ends: it returns (an error or nil), or \<open>log.Fatal\<close> ends the process.
  The result carries the file system and the lines logged.
\<close>

datatype unzip_end = Returned "io_error option" | Fatal io_error

fun Unzip_files :: "zip_entry list \<Rightarrow> path \<Rightarrow> filesystem \<Rightarrow> string list
                     \<Rightarrow> unzip_end \<times> filesystem \<times> string list" where
  "Unzip_files [] dest fs lg = (Returned None, fs, lg)"
| "Unzip_files (f # rest) dest fs lg =
     (if \<not> Contains (Name f) ''..'' then
        (if OpenError f then (Returned (Some (ErrZipEntry (Name f))), fs, lg)
         else
           (let fpath = filepath_Join dest (Name f) in
            if EntryIsDir f then
              (case MkdirAll fs fpath of
                 Inl e \<Rightarrow> Unzip_files rest dest fs lg
               | Inr fs' \<Rightarrow> Unzip_files rest dest fs' lg)
            else
              (let fdir = butlast fpath in
               case MkdirAll fs fdir of
                 Inl e \<Rightarrow> (Fatal e, fs, lg)
               | Inr fs1 \<Rightarrow>
                  (case os_Create fs1 fpath of
                     Inl e \<Rightarrow> (Returned (Some e), fs1, lg)
                   | Inr fs2 \<Rightarrow>
                      (case io_Copy fs2 fpath f of
                         (Some e, fs3) \<Rightarrow> (Returned (Some e), fs3, lg)
                       | (None, fs3) \<Rightarrow> Unzip_files rest dest fs3 lg)))))
      else Unzip_files rest dest fs (lg @ [''failed to extract file: '' @ Name f @ '' (cannot validate)'']))"

text \<open>\<open>src\<close> is given by what \<open>zip.OpenReader(src)\<close> returns.\<close>

definition Unzip :: "io_error + zip_entry list \<Rightarrow> path \<Rightarrow> filesystem
                     \<Rightarrow> unzip_end \<times> filesystem \<times> string list" where
  "Unzip src dest fs =
     (case src of
        Inl err \<Rightarrow> (Returned (Some err), fs, [])
      | Inr files \<Rightarrow> Unzip_files files dest fs [])"

subsection \<open>The update engine's unzip\<close>

fun unzip_files :: "zip_entry list \<Rightarrow> path \<Rightarrow> filesystem \<Rightarrow> io_error option \<times> filesystem" where
  "unzip_files [] dest fs = (None, fs)"
| "unzip_files (f # rest) dest fs =
     (let fpath = filepath_Join dest (Name f) in
      if EntryIsDir f then
        (case MkdirAll fs fpath of
           Inl err \<Rightarrow> (Some err, fs)
         | Inr fs' \<Rightarrow> unzip_files rest dest fs')
      else
        (case MkdirAll fs (filepath_Dir fpath) of
           Inl err \<Rightarrow> (Some err, fs)
         | Inr fs1 \<Rightarrow>
            (if OpenError f then (Some (ErrZipEntry (Name f)), fs1)
             else
               (case os_Create fs1 fpath of
                  Inl err \<Rightarrow> (Some err, fs1)
                | Inr fs2 \<Rightarrow>
                   (case io_Copy fs2 fpath f of
                      (Some err, fs3) \<Rightarrow> (Some err, fs3)
                    | (None, fs3) \<Rightarrow> unzip_files rest dest fs3)))))"

definition unzip :: "io_error + zip_entry list \<Rightarrow> path \<Rightarrow> filesystem
                     \<Rightarrow> io_error option \<times> filesystem" where
  "unzip src dest fs =
     (case src of
        Inl err \<Rightarrow> (Some err, fs)
      | Inr files \<Rightarrow> unzip_files files dest fs)"

text \<open>A path lies within a directory when the directory's elements start it.\<close>

definition within :: "path \<Rightarrow> path \<Rightarrow> bool" where
  "within root p = (take (length root) p = root)"

text \<open>
  An example: an entry that climbs out of the extraction root, and a file system that
  has the extraction root and nothing else.
\<close>

definition evil_entry :: zip_entry where
  "evil_entry =
     \<lparr>Name = ''../evil.exe'', EntryIsDir = False, Body = ''MZ'', OpenError = False,
      ReadError = None\<rparr>"

definition scratch_fs :: filesystem where
  "scratch_fs =
     [[''Temp''] \<mapsto> Dir, [''Temp'', ''nvm-upgrade-1''] \<mapsto> Dir,
      [''Temp'', ''nvm-upgrade-1'', ''assets''] \<mapsto> Dir]"

section \<open>Package upgrade: the update check\<close>

text \<open>
  The values \<open>encoding/json\<close> decodes into an \<open>interface{}\<close>.  An object is kept as
  the list of its members; \<open>map_of\<close> looks a key up.
\<close>

datatype json =
    JNull
  | JBool bool
  | JNumber int
  | JString string
  | JArray "json list"
  | JObject "(string \<times> json) list"

datatype upgrade_error =
    SemverError error
  | IOError io_error
  | ReadingResponseBody io_error
  | ParsingRelease io_error
  | FailedToObtainUpdateData upgrade_error
  | FailedToCreateTemporaryDirectory io_error
  | FailedToDownloadNewVersion io_error
  | FailedToDownloadChecksum io_error
  | ErrorComputingChecksum io_error
  | ChecksumMismatch
  | FailedToDownloadAsset io_error
  | FailedToCreateBackupDirectory io_error
  | FailedToCreateBackup io_error
  | FailedToCopyUpdateExe io_error

record Update =
  Version :: string
  Assets :: "string list"
  Warnings :: "string list"
  VersionWarnings :: "string list"
  SourceURL :: string










section \<open>Package upgrade: the update run\<close>

subsection \<open>Status events\<close>

record Status =
  Text :: string
  Err :: "upgrade_error option"
  Done :: bool
  Help :: bool
  Cancel :: bool
  Warn :: string

text \<open>The zero value of the struct; a composite literal sets some of its fields.\<close>

definition Status0 :: Status where
  "Status0 = \<lparr>Text = [], Err = None, Done = False, Help = False, Cancel = False, Warn = []\<rparr>"

subsection \<open>What a run does to the outside\<close>




text \<open>
  The two scripts \<open>autoupdate\<close> writes, by what \<open>fmt.Sprintf\<close> puts into their
  templates.  \<open>remove_backup.bat\<close> deletes the scheduled task of the given name and
  removes the given directory.  \<open>updater.bat\<close> waits for the process to exit, swaps the
  executable and then creates the scheduled task: its name, the command it runs, its
  schedule type, its start date and its start time (hours, minutes).
\<close>

record remove_backup_bat =
  delete_task :: string
  rmdir_path :: path

record updater_bat =
  task_name :: string
  task_run :: path
  task_sc :: string
  task_sd :: nat
  task_st :: "nat \<times> nat"

datatype file_data =
    Bytes string
  | RemoveBackupBat remove_backup_bat
  | UpdaterBat updater_bat

text \<open>
  The operations of a run on the file system, the network and other processes, named
  as in the source, with the paths they are called on.
\<close>

datatype effect =
    MkdirTemp string path
  | HttpGet string
  | WriteFile path file_data
  | Mkdir path
  | ComputeMD5 path
  | ReadChecksum path
  | UnzipInto path path
  | Tree path
  | RunExe path
  | ZipDirectory path path
  | MkdirAllAt path
  | CopyFile path path
  | CopyDirContents path path
  | SetHidden path
  | RemoveAll path
  | StartScript path nat path path
  | Sleep nat

text \<open>
  How a run ends: \<open>run\<close> returns to its caller, the process exits with a code, the
  run panics, or it stays blocked at a send that nobody receives.
\<close>

datatype ending = Returns "upgrade_error option" | Exits int | Panics | Blocks

text \<open>
  The steps of a run in program order: a send on the status channel, an operation that
  succeeded, an operation that failed, and the end.
\<close>

datatype action =
    Send Status
  | Do effect
  | Failed effect io_error
  | Stop ending

definition attempt :: "io_error option \<Rightarrow> effect \<Rightarrow> action" where
  "attempt result e = (case result of None \<Rightarrow> Do e | Some err \<Rightarrow> Failed e err)"

definition attempt_sum :: "io_error + 'a \<Rightarrow> effect \<Rightarrow> action" where
  "attempt_sum result e = (case result of Inr x \<Rightarrow> Do e | Inl err \<Rightarrow> Failed e err)"







subsection \<open>autoupdate\<close>


subsection \<open>run\<close>










subsection \<open>Run: the status channel and its consumer\<close>

text \<open>
  \<open>Run\<close> makes the channel with \<open>make(chan Status)\<close>: it has no buffer, so a send
  completes only when the consumer receives it.  \<open>Run\<close> starts one consumer, a loop
  around a receive.  On the console the consumer ends the process with
  \<open>os.Exit(1)\<close> when it receives an error and leaves its loop when it receives
  \<open>Done\<close>; with the progress dialog it leaves its loop on \<open>Cancel\<close>, on an error and
  on \<open>Done\<close>, after which \<open>Run\<close> ends the process with the exit code the consumer
  has set.  \<open>consume\<close> gives, for a received event, whether the consumer goes on
  receiving, and the exit code if the process is to end.
\<close>

definition consume :: "bool \<Rightarrow> Status \<Rightarrow> bool \<times> int option" where
  "consume show_progress_ui s =
     (if \<not> show_progress_ui then
        (if Err s \<noteq> None then (False, Some 1)
         else if Done s then (False, None)
         else (True, None))
      else
        (if Cancel s then (False, Some 0)
         else if Err s \<noteq> None then (False, Some 1)
         else if Done s then (False, Some 0)
         else (True, None)))"

text \<open>
  The state of a run: the events the consumer has received, the operations that have
  been carried out, whether the consumer is still receiving, the exit code with which
  the consumer ends the process, and after how many more steps of the run the
  goroutine that watches the progress dialog sends \<open>Status{Cancel: true}\<close>, if the
  dialog is cancelled at all.
\<close>

record run_state =
  delivered :: "Status list"
  performed :: "effect list"
  receiving :: bool
  exit_code :: "int option"
  cancel_in :: "nat option"


definition deliver :: "bool \<Rightarrow> Status \<Rightarrow> run_state \<Rightarrow> run_state" where
  "deliver ui s st =
     st\<lparr>delivered := delivered st @ [s],
        receiving := fst (consume ui s),
        exit_code := snd (consume ui s)\<rparr>"

text \<open>
  The send of the dialog's goroutine: it is received if the consumer still receives,
  and it does not hold up the run otherwise.
\<close>

definition tick :: "bool \<Rightarrow> run_state \<Rightarrow> run_state" where
  "tick ui st =
     (case cancel_in st of
        None \<Rightarrow> st
      | Some k \<Rightarrow>
         (if k > 0 then st\<lparr>cancel_in := Some (k - 1)\<rparr>
          else if receiving st then deliver ui (Status0\<lparr>Cancel := True\<rparr>) (st\<lparr>cancel_in := None\<rparr>)
          else st\<lparr>cancel_in := None\<rparr>))"





subsection \<open>Notions of the specification\<close>







text \<open>
  The \<open>updater.bat\<close> scripts among the files written, and the time for which such a
  script schedules the removal of the staging directory: its start date at its start
  time.
\<close>

fun updater_scripts :: "effect list \<Rightarrow> updater_bat list" where
  "updater_scripts [] = []"
| "updater_scripts (WriteFile p (UpdaterBat u) # rest) = u # updater_scripts rest"
| "updater_scripts (e # rest) = updater_scripts rest"








subsection \<open>Auxiliary notions for the proofs\<close>




text \<open>A step that neither stops the consumer nor ends the run.\<close>

fun steady :: "bool \<Rightarrow> action \<Rightarrow> bool" where
  "steady ui (Send s) = fst (consume ui s)"
| "steady ui (Stop en) = False"
| "steady ui a = True"

fun sends :: "action list \<Rightarrow> Status list" where
  "sends [] = []"
| "sends (Send s # rest) = s # sends rest"
| "sends (a # rest) = sends rest"

fun effects :: "action list \<Rightarrow> effect list" where
  "effects [] = []"
| "effects (Do e # rest) = e # effects rest"
| "effects (a # rest) = effects rest"



subsection \<open>Example environments\<close>





section \<open>Package semver: properties of the comparison\<close>

lemma PRVersion_Compare_range: "PRVersion_Compare a b \<in> {-1, 0, 1}"
  by (simp add: PRVersion_Compare_def)

lemma PRVersion_Compare_antisym: "PRVersion_Compare a b = - PRVersion_Compare b a"
  by (auto simp: PRVersion_Compare_def)

lemma PRVersion_Compare_trans:
  "PRVersion_Compare a b \<le> 0 \<Longrightarrow> PRVersion_Compare b c \<le> 0 \<Longrightarrow> PRVersion_Compare a c \<le> 0"
  by (auto simp: PRVersion_Compare_def split: if_splits)

lemma PRVersion_Compare_trans_strict:
  "PRVersion_Compare a b \<le> 0 \<Longrightarrow> PRVersion_Compare b c \<le> 0 \<Longrightarrow> PRVersion_Compare a c = 0
   \<Longrightarrow> PRVersion_Compare a b = 0 \<and> PRVersion_Compare b c = 0"
  by (auto simp: PRVersion_Compare_def split: if_splits)

lemma compare_pre_range: "compare_pre xs ys \<in> {-1, 0, 1}"
  by (induction xs ys rule: compare_pre.induct) (auto simp: Let_def)

lemma compare_pre_antisym: "compare_pre xs ys = - compare_pre ys xs"
proof (induction xs ys rule: compare_pre.induct)
  case (1 x xs y ys)
  then show ?case
    using PRVersion_Compare_antisym [of x y] PRVersion_Compare_range [of x y]
    by (auto simp: Let_def)
qed simp_all

lemma compare_pre_trans:
  "compare_pre xs ys \<le> 0 \<Longrightarrow> compare_pre ys zs \<le> 0 \<Longrightarrow> compare_pre xs zs \<le> 0"
proof (induction xs arbitrary: ys zs)
  case Nil
  then show ?case by (cases zs) auto
next
  case (Cons x xs)
  show ?case
  proof (cases ys)
    case Nil
    with Cons.prems show ?thesis by simp
  next
    case ys: (Cons y ys')
    show ?thesis
    proof (cases zs)
      case Nil
      with Cons.prems ys show ?thesis by simp
    next
      case zs: (Cons z zs')
      have xy: "PRVersion_Compare x y \<le> 0"
        using Cons.prems(1) PRVersion_Compare_range [of x y] by (auto simp: ys Let_def split: if_splits)
      have yz: "PRVersion_Compare y z \<le> 0"
        using Cons.prems(2) PRVersion_Compare_range [of y z] by (auto simp: ys zs Let_def split: if_splits)
      have xz: "PRVersion_Compare x z \<le> 0"
        using xy yz by (rule PRVersion_Compare_trans)
      show ?thesis
      proof (cases "PRVersion_Compare x z = 0")
        case True
        then have e: "PRVersion_Compare x y = 0" "PRVersion_Compare y z = 0"
          using PRVersion_Compare_trans_strict [OF xy yz] by auto
        with Cons.prems have "compare_pre xs ys' \<le> 0" "compare_pre ys' zs' \<le> 0"
          by (auto simp: ys zs)
        then have "compare_pre xs zs' \<le> 0" by (rule Cons.IH)
        with True show ?thesis by (simp add: zs)
      next
        case False
        with xz PRVersion_Compare_range [of x z] show ?thesis
          by (auto simp: zs Let_def)
      qed
    qed
  qed
qed

lemma Version_Compare_antisym: "Version_Compare a b = - Version_Compare b a"
  using compare_pre_antisym [of "Pre a" "Pre b"]
  by (auto simp: Version_Compare_def)

lemma Version_Compare_trans:
  "Version_Compare a b \<le> 0 \<Longrightarrow> Version_Compare b c \<le> 0 \<Longrightarrow> Version_Compare a c \<le> 0"
  using compare_pre_trans [of "Pre a" "Pre b" "Pre c"]
  by (auto simp: Version_Compare_def split: if_splits)

text \<open>The comparisons the specification lists, on the parsed strings.\<close>

lemma compare_alpha_release: "compare_strings ''1.0.0-alpha'' ''1.0.0'' = Inr (-1)"
  by code_simp

lemma compare_alpha_alpha1: "compare_strings ''1.0.0-alpha'' ''1.0.0-alpha.1'' = Inr (-1)"
  by code_simp

lemma compare_alphabeta_beta: "compare_strings ''1.0.0-alpha.beta'' ''1.0.0-beta'' = Inr (-1)"
  by code_simp

lemma compare_rc2_rc10: "compare_strings ''1.0.0-rc.2'' ''1.0.0-rc.10'' = Inr (-1)"
  by code_simp

lemma PRVersion_Compare_less: "PRVersion_Compare a b = -1 \<longleftrightarrow> spec_identifier_less a b"
  by (auto simp: PRVersion_Compare_def spec_identifier_less_def word_less_def word_uint_eq_iff)

lemma PRVersion_Compare_equal: "PRVersion_Compare a b = 0 \<longleftrightarrow> spec_identifier_equal a b"
  by (auto simp: PRVersion_Compare_def spec_identifier_equal_def word_uint_eq_iff)

lemma bex_upt_Suc: "(\<exists>i \<in> {0..<Suc n}. P i) \<longleftrightarrow> P 0 \<or> (\<exists>i \<in> {0..<n}. P (Suc i))"
  by (auto simp: less_Suc_eq_0_disj)

lemma ball_upt_Suc: "(\<forall>i \<in> {0..<Suc n}. P i) \<longleftrightarrow> P 0 \<and> (\<forall>i \<in> {0..<n}. P (Suc i))"
  by (auto simp: less_Suc_eq_0_disj)

lemma spec_prerelease_less_Cons:
  "spec_prerelease_less (x # xs) (y # ys) \<longleftrightarrow>
     spec_identifier_less x y \<or> (spec_identifier_equal x y \<and> spec_prerelease_less xs ys)"
  unfolding spec_prerelease_less_def
  by (simp add: bex_upt_Suc ball_upt_Suc) blast

lemma spec_identifier_less_not_equal: "spec_identifier_less a b \<Longrightarrow> \<not> spec_identifier_equal a b"
  by (auto simp: spec_identifier_less_def spec_identifier_equal_def split: if_splits)

lemma compare_pre_less: "compare_pre xs ys = -1 \<longleftrightarrow> spec_prerelease_less xs ys"
proof (induction xs ys rule: compare_pre.induct)
  case (1 x xs y ys)
  then show ?case
    using PRVersion_Compare_less [of x y] PRVersion_Compare_equal [of x y]
      PRVersion_Compare_range [of x y] spec_identifier_less_not_equal [of x y]
    by (auto simp: spec_prerelease_less_Cons Let_def)
qed (simp_all add: spec_prerelease_less_def)


lemma compare_pre_greater: "compare_pre xs ys = 1 \<longleftrightarrow> spec_prerelease_less ys xs"
  using compare_pre_antisym [of xs ys] compare_pre_less [of ys xs] by auto

text \<open>
  Claim C4.  For two versions with equal major, minor and patch numbers: when neither has
  a prerelease sequence they are equal; a version without a prerelease sequence
  compares greater than one with a prerelease sequence; when both have one,
  \<open>Version_Compare\<close> decides exactly as the specification's pairwise rule
  \<open>spec_prerelease_less\<close> does (numeric identifiers by magnitude, alphanumeric ones
  lexicographically, numeric below alphanumeric, the shorter sequence below the longer
  when the shared positions agree); and replacing the build metadata of either version
  never changes the result.
\<close>

theorem Version_Compare_prerelease:
  assumes "Major v = Major w" and "Minor v = Minor w" and "Patch v = Patch w"
  shows "(Pre v = [] \<and> Pre w = [] \<longrightarrow> Version_Compare v w = 0) \<and>
         (Pre v = [] \<and> Pre w \<noteq> [] \<longrightarrow> Version_Compare v w = 1 \<and> Version_Compare w v = -1) \<and>
         (Pre v \<noteq> [] \<and> Pre w \<noteq> [] \<longrightarrow>
            (Version_Compare v w = -1 \<longleftrightarrow> spec_prerelease_less (Pre v) (Pre w)) \<and>
            (Version_Compare v w = 1 \<longleftrightarrow> spec_prerelease_less (Pre w) (Pre v)) \<and>
            (Version_Compare v w = 0 \<longleftrightarrow>
               \<not> spec_prerelease_less (Pre v) (Pre w) \<and> \<not> spec_prerelease_less (Pre w) (Pre v))) \<and>
         Version_Compare (v\<lparr>Build := bv\<rparr>) (w\<lparr>Build := bw\<rparr>) = Version_Compare v w"
proof -
  have "Version_Compare (v\<lparr>Build := bv\<rparr>) (w\<lparr>Build := bw\<rparr>) = Version_Compare v w"
    by (simp add: Version_Compare_def)
  moreover have "Pre v = [] \<and> Pre w = [] \<longrightarrow> Version_Compare v w = 0"
    using assms by (simp add: Version_Compare_def)
  moreover have "Pre v = [] \<and> Pre w \<noteq> [] \<longrightarrow> Version_Compare v w = 1 \<and> Version_Compare w v = -1"
    using assms by (simp add: Version_Compare_def)
  moreover have "Pre v \<noteq> [] \<and> Pre w \<noteq> [] \<longrightarrow>
            (Version_Compare v w = -1 \<longleftrightarrow> spec_prerelease_less (Pre v) (Pre w)) \<and>
            (Version_Compare v w = 1 \<longleftrightarrow> spec_prerelease_less (Pre w) (Pre v)) \<and>
            (Version_Compare v w = 0 \<longleftrightarrow>
               \<not> spec_prerelease_less (Pre v) (Pre w) \<and> \<not> spec_prerelease_less (Pre w) (Pre v))"
    using assms compare_pre_less [of "Pre v" "Pre w"] compare_pre_greater [of "Pre v" "Pre w"]
      compare_pre_range [of "Pre v" "Pre w"]
    by (auto simp: Version_Compare_def)
  ultimately show ?thesis by blast
qed

text \<open>
  The theorem at \<open>1.0.0-rc.2\<close> against \<open>1.0.0-rc.10+x\<close> (numeric magnitude, build
  metadata ignored) and at \<open>1.0.0\<close> against \<open>1.0.0-rc\<close>.
\<close>

theorem Version_Compare_prerelease_witness:
  "Version_Compare
     \<lparr>Major = 1, Minor = 0, Patch = 0,
      Pre = [\<lparr>VersionStr = ''rc'', VersionNum = 0, IsNum = False\<rparr>,
             \<lparr>VersionStr = [], VersionNum = 2, IsNum = True\<rparr>], Build = []\<rparr>
     \<lparr>Major = 1, Minor = 0, Patch = 0,
      Pre = [\<lparr>VersionStr = ''rc'', VersionNum = 0, IsNum = False\<rparr>,
             \<lparr>VersionStr = [], VersionNum = 10, IsNum = True\<rparr>], Build = [''x'']\<rparr> = -1 \<and>
   Version_Compare
     \<lparr>Major = 1, Minor = 0, Patch = 0, Pre = [], Build = []\<rparr>
     \<lparr>Major = 1, Minor = 0, Patch = 0,
      Pre = [\<lparr>VersionStr = ''rc'', VersionNum = 0, IsNum = False\<rparr>], Build = []\<rparr> = 1"
proof -
  have less:
    "spec_prerelease_less
       [\<lparr>VersionStr = ''rc'', VersionNum = 0, IsNum = False\<rparr>,
        \<lparr>VersionStr = [], VersionNum = 2, IsNum = True\<rparr>]
       [\<lparr>VersionStr = ''rc'', VersionNum = 0, IsNum = False\<rparr>,
        \<lparr>VersionStr = [], VersionNum = 10, IsNum = True\<rparr>]"
    by code_simp
  show ?thesis
    using less
      Version_Compare_prerelease [of
       "\<lparr>Major = 1, Minor = 0, Patch = 0,
        Pre = [\<lparr>VersionStr = ''rc'', VersionNum = 0, IsNum = False\<rparr>,
               \<lparr>VersionStr = [], VersionNum = 2, IsNum = True\<rparr>], Build = []\<rparr>"
       "\<lparr>Major = 1, Minor = 0, Patch = 0,
        Pre = [\<lparr>VersionStr = ''rc'', VersionNum = 0, IsNum = False\<rparr>,
               \<lparr>VersionStr = [], VersionNum = 10, IsNum = True\<rparr>], Build = [''x'']\<rparr>"]
      Version_Compare_prerelease [of
       "\<lparr>Major = 1, Minor = 0, Patch = 0, Pre = [], Build = []\<rparr>"
       "\<lparr>Major = 1, Minor = 0, Patch = 0,
        Pre = [\<lparr>VersionStr = ''rc'', VersionNum = 0, IsNum = False\<rparr>], Build = []\<rparr>"]
    by simp
qed

text \<open>
  Claim C5.  \<open>Version_Compare\<close> is antisymmetric, \<open>Compare(a,b) = -Compare(b,a)\<close>, and
  transitive, for all versions; and \<open>1.0.0-alpha < 1.0.0\<close>,
  \<open>1.0.0-alpha < 1.0.0-alpha.1\<close>, \<open>1.0.0-alpha.beta < 1.0.0-beta\<close>.
\<close>

theorem Version_Compare_total_order:
  "Version_Compare a b = - Version_Compare b a \<and>
   (Version_Compare a b \<le> 0 \<and> Version_Compare b c \<le> 0 \<longrightarrow> Version_Compare a c \<le> 0) \<and>
   compare_strings ''1.0.0-alpha'' ''1.0.0'' = Inr (-1) \<and>
   compare_strings ''1.0.0-alpha'' ''1.0.0-alpha.1'' = Inr (-1) \<and>
   compare_strings ''1.0.0-alpha.beta'' ''1.0.0-beta'' = Inr (-1)"
  using Version_Compare_antisym [of a b] Version_Compare_trans [of a b c] compare_alpha_release compare_alpha_alpha1 compare_alphabeta_beta
  by blast

text \<open>Transitivity at \<open>1.0.0-alpha\<close>, \<open>1.0.0-beta\<close>, \<open>1.0.0\<close>.\<close>

theorem Version_Compare_total_order_witness:
  "Version_Compare \<lparr>Major = 1, Minor = 0, Patch = 0, Pre = [\<lparr>VersionStr = ''alpha'', VersionNum = 0, IsNum = False\<rparr>], Build = []\<rparr>
      \<lparr>Major = 1, Minor = 0, Patch = 0, Pre = [\<lparr>VersionStr = ''beta'', VersionNum = 0, IsNum = False\<rparr>], Build = []\<rparr> \<le> 0 \<and>
   Version_Compare \<lparr>Major = 1, Minor = 0, Patch = 0, Pre = [\<lparr>VersionStr = ''beta'', VersionNum = 0, IsNum = False\<rparr>], Build = []\<rparr>
      \<lparr>Major = 1, Minor = 0, Patch = 0, Pre = [], Build = []\<rparr> \<le> 0 \<and>
   Version_Compare \<lparr>Major = 1, Minor = 0, Patch = 0, Pre = [\<lparr>VersionStr = ''alpha'', VersionNum = 0, IsNum = False\<rparr>], Build = []\<rparr>
      \<lparr>Major = 1, Minor = 0, Patch = 0, Pre = [], Build = []\<rparr> \<le> 0"
  using Version_Compare_total_order [of
     "\<lparr>Major = 1, Minor = 0, Patch = 0, Pre = [\<lparr>VersionStr = ''alpha'', VersionNum = 0, IsNum = False\<rparr>], Build = []\<rparr>"
     "\<lparr>Major = 1, Minor = 0, Patch = 0, Pre = [\<lparr>VersionStr = ''beta'', VersionNum = 0, IsNum = False\<rparr>], Build = []\<rparr>"
     "\<lparr>Major = 1, Minor = 0, Patch = 0, Pre = [], Build = []\<rparr>"]
  by (simp add: Version_Compare_def PRVersion_Compare_def)

section \<open>Package semver: parsing and rendering\<close>

text \<open>
  Claim C3.  Rendering is meant to invert parsing on canonical strings.  \<open>Parse\<close>
  deletes the first \<open>v\<close> of its input wherever it stands, not only a leading one, so
  the canonical string \<open>1.0.0-dev\<close> is parsed as \<open>1.0.0-de\<close> and rendered as such.
\<close>

theorem Parse_String_dev:
  "map_sum id Version_String (Parse ''1.0.0-dev'') = Inr ''1.0.0-de''"
  by code_simp

text \<open>
  Claim C6.  Parsing is meant to reject a numeric field with a character that is not a
  digit.  The minor field of \<open>1.v2.3\<close> is \<open>v2\<close>; \<open>Parse\<close> deletes that \<open>v\<close> and
  accepts the string as version 1.2.3.
\<close>

theorem Parse_accepts_inner_v:
  "Parse ''1.v2.3'' = Inr \<lparr>Major = 1, Minor = 2, Patch = 3, Pre = [], Build = []\<rparr>"
  by code_simp

text \<open>The three rejections the specification lists do happen.\<close>

lemma Parse_rejects_examples:
  "Parse ''1.02.3'' = Inl (LeadingZeroes ''minor'' ''02'')"
  "Parse ''1.2'' = Inl NoMajorMinorPatch"
  "Parse [] = Inl VersionStringEmpty"
  by code_simp+

section \<open>Package encoding: ToUTF8\<close>

text \<open>
  Claim C10.  \<open>ToUTF8\<close> is meant to return for every string.  For the string of the one
  byte 0xFF, which is not valid UTF-8, the loop gets \<open>RuneError\<close>, whose encoding takes
  three bytes; the buffer has one, and \<open>utf8.EncodeRune\<close> panics.
\<close>

theorem ToUTF8_invalid_byte_panics: "ToUTF8 [0xFF] = None"
  by code_simp

text \<open>When \<open>ToUTF8\<close> returns, the result is not longer than the string.\<close>

lemma range_loop_length:
  "range_loop s b i = Some (b', j) \<Longrightarrow> length b' = length b"
proof (induction s b i rule: range_loop.induct)
  case (1 b i)
  then show ?case by (simp add: range_loop.simps)
next
  case (2 c cs b i)
  then show ?case
    by (auto simp: range_loop.simps EncodeRune_def Let_def
        split: if_splits option.splits prod.splits)
qed

lemma ToUTF8_length: "ToUTF8 s = Some r \<Longrightarrow> length r \<le> length s"
  using range_loop_length [of s "replicate (length s) 0" 0]
  by (auto simp: ToUTF8_def split: option.splits prod.splits)

section \<open>Zip extraction\<close>

text \<open>
  Claim C1.  An entry whose path has a \<open>..\<close> element is meant to be skipped by every
  extraction.  The update engine's \<open>unzip\<close> has no such check: for the entry
  \<open>../evil.exe\<close> and the extraction root \<open>Temp/nvm-upgrade-1/assets\<close> it returns
  without an error and has written the file \<open>Temp/nvm-upgrade-1/evil.exe\<close>, outside
  the root.
\<close>

theorem unzip_writes_outside_root:
  "fst (unzip (Inr [evil_entry]) [''Temp'', ''nvm-upgrade-1'', ''assets''] scratch_fs) = None \<and>
   scratch_fs [''Temp'', ''nvm-upgrade-1'', ''evil.exe''] = None \<and>
   snd (unzip (Inr [evil_entry]) [''Temp'', ''nvm-upgrade-1'', ''assets''] scratch_fs)
     [''Temp'', ''nvm-upgrade-1'', ''evil.exe''] = Some (File ''MZ'') \<and>
   \<not> within [''Temp'', ''nvm-upgrade-1'', ''assets''] [''Temp'', ''nvm-upgrade-1'', ''evil.exe'']"
  by (simp add: unzip_def evil_entry_def scratch_fs_def filepath_Join_def filepath_Dir_def
      IsPathSeparator_def MkdirAll_def upto_path_def os_Create_def is_dir_def io_Copy_def
      within_def)

text \<open>\<open>file.Unzip\<close> skips the same entry, logs it and writes nothing.\<close>

lemma Unzip_skips_evil_entry:
  "Unzip (Inr [evil_entry]) [''Temp'', ''nvm-upgrade-1'', ''assets''] scratch_fs =
     (Returned None, scratch_fs, [''failed to extract file: ../evil.exe (cannot validate)''])"
  by (simp add: Unzip_def evil_entry_def)

text \<open>
  \<open>file.Unzip\<close> writes within the extraction root only: an element \<open>..\<close> of a name
  makes the name contain \<open>..\<close>, so a name that passes the check is joined below the root.
\<close>

lemma Contains_Cons: "Contains xs sub \<Longrightarrow> Contains (x # xs) sub"
  by simp

lemma elements_not_Nil: "elements s \<noteq> []"
  by (induction s) (auto split: list.splits)

lemma hd_elements_prefix: "hd (elements s) = e \<Longrightarrow> take (length e) s = e"
proof (induction s arbitrary: e)
  case Nil
  then show ?case by simp
next
  case (Cons x xs)
  show ?case
  proof (cases "IsPathSeparator x")
    case True
    with Cons.prems show ?thesis by simp
  next
    case False
    obtain p ps where e: "elements xs = p # ps"
      using elements_not_Nil [of xs] by (cases "elements xs") auto
    with False Cons.prems have "e = x # p" by simp
    moreover from e have "take (length p) xs = p"
      using Cons.IH [of p] by simp
    ultimately show ?thesis by simp
  qed
qed

lemma dotdot_element_Contains: "''..'' \<in> set (elements s) \<Longrightarrow> Contains s ''..''"
proof (induction s)
  case Nil
  then show ?case by simp
next
  case (Cons x xs)
  show ?case
  proof (cases "IsPathSeparator x")
    case True
    with Cons show ?thesis by auto
  next
    case False
    obtain p ps where e: "elements xs = p # ps"
      using elements_not_Nil [of xs] by (cases "elements xs") auto
    with False Cons.prems have "''..'' = x # p \<or> ''..'' \<in> set ps" by auto
    then show ?thesis
    proof
      assume "''..'' = x # p"
      then have "x = CHR ''.''" "p = ''.''" by auto
      moreover from e have "take (length p) xs = p"
        using hd_elements_prefix [of xs p] by simp
      ultimately have "take 2 (x # xs) = ''..''"
        by (cases xs) auto
      then show ?thesis by simp
    next
      assume "''..'' \<in> set ps"
      with e have "''..'' \<in> set (elements xs)" by simp
      then show ?thesis using Cons.IH by simp
    qed
  qed
qed

lemma Clean_no_dotdot:
  "''..'' \<notin> set es \<Longrightarrow> Clean acc es = acc @ filter (\<lambda>e. e \<noteq> [] \<and> e \<noteq> ''.'') es"
  by (induction es arbitrary: acc) auto

lemma filepath_Join_within:
  assumes "\<not> Contains name ''..''"
  shows "within dest (filepath_Join dest name)"
proof -
  from assms have "''..'' \<notin> set (elements name)"
    using dotdot_element_Contains [of name] by blast
  then have "Clean dest (elements name) =
      dest @ filter (\<lambda>e. e \<noteq> [] \<and> e \<noteq> ''.'') (elements name)"
    by (rule Clean_no_dotdot)
  then show ?thesis by (simp add: filepath_Join_def within_def)
qed

lemma foldl_mkdir_unchanged:
  "p \<notin> set qs \<Longrightarrow> (foldl (\<lambda>fs' q. fs'(q \<mapsto> Dir)) fs qs) p = fs p"
  by (induction qs arbitrary: fs) auto

lemma foldl_mkdir_changes:
  "(foldl (\<lambda>fs' q. fs'(q \<mapsto> Dir)) fs qs) p \<noteq> fs p \<Longrightarrow> p \<in> set qs"
  using foldl_mkdir_unchanged [of p qs fs] by blast

lemma take_within:
  assumes "within dest p" and "n \<le> length p"
  shows "within dest (take n p) \<or> within (take n p) dest"
proof (cases "length dest \<le> n")
  case True
  with assms(1) show ?thesis by (simp add: within_def min_def)
next
  case False
  then have n: "n \<le> length dest" by simp
  from assms(1) have "take (length dest) p = dest" by (simp add: within_def)
  then have "take n dest = take n (take (length dest) p)" by simp
  also have "\<dots> = take n p" using n by (simp add: min_def)
  finally have "take n dest = take n p" .
  with assms(2) have "within (take n p) dest" by (simp add: within_def min_def)
  then show ?thesis by simp
qed

lemma upto_path_within:
  assumes "q \<in> set (upto_path p)" and "within dest p"
  shows "within dest q \<or> within q dest"
proof -
  from assms(1) obtain n where "q = take n p" "n \<le> length p"
    by (auto simp: upto_path_def)
  with take_within [OF assms(2), of n] show ?thesis by simp
qed

lemma MkdirAll_changes:
  "MkdirAll fs p = Inr fs' \<Longrightarrow> fs' q \<noteq> fs q \<Longrightarrow> q \<in> set (upto_path p)"
  using foldl_mkdir_changes [of fs "upto_path p" q]
  by (auto simp: MkdirAll_def split: option.splits)

lemma within_butlast:
  assumes "within dest p" and "q \<in> set (upto_path (butlast p))"
  shows "within dest q \<or> within q dest"
proof -
  from assms(2) obtain n where n: "q = take n (butlast p)" "n \<le> length (butlast p)"
    by (auto simp: upto_path_def)
  then have "q = take n (take (length p - 1) p)" by (simp add: butlast_conv_take)
  also have "\<dots> = take n p" using n(2) by (simp add: min_def)
  finally have "q = take n p" .
  moreover have "n \<le> length p" using n(2) by simp
  ultimately show ?thesis using take_within [OF assms(1), of n] by simp
qed

lemma Unzip_files_confined:
  "Unzip_files files dest fs lg = (r, fs', lg') \<Longrightarrow> fs' p \<noteq> fs p \<Longrightarrow>
   within dest p \<or> within p dest"
proof (induction files arbitrary: fs lg r fs' lg')
  case Nil
  then show ?case by simp
next
  case (Cons f rest)
  note IH = Cons.IH
  note prems = Cons.prems
  show ?case
  proof (cases "Contains (Name f) ''..''")
    case True
    with prems IH show ?thesis by auto
  next
    case False
    then have w: "within dest (filepath_Join dest (Name f))"
      by (rule filepath_Join_within)
    show ?thesis
    proof (cases "OpenError f")
      case True
      with False prems show ?thesis by simp
    next
      case no: False
      show ?thesis
      proof (cases "EntryIsDir f")
        case True
        show ?thesis
        proof (cases "MkdirAll fs (filepath_Join dest (Name f))")
          case (Inl e)
          with False no True prems IH show ?thesis by (auto simp: Let_def)
        next
          case (Inr fs1)
          then have c: "fs1 q \<noteq> fs q \<Longrightarrow> within dest q \<or> within q dest" for q
            using MkdirAll_changes [OF Inr, of q] upto_path_within [OF _ w, of q] by blast
          from False no True Inr prems
          have "Unzip_files rest dest fs1 lg = (r, fs', lg')" by (simp add: Let_def)
          then have "fs' p \<noteq> fs1 p \<Longrightarrow> within dest p \<or> within p dest"
            using IH by blast
          with c [of p] prems(2) show ?thesis by (cases "fs' p = fs1 p") auto
        qed
      next
        case isfile: False
        show ?thesis
        proof (cases "MkdirAll fs (butlast (filepath_Join dest (Name f)))")
          case (Inl e)
          with False no isfile prems show ?thesis by (simp add: Let_def)
        next
          case (Inr fs1)
          then have c1: "fs1 q \<noteq> fs q \<Longrightarrow> within dest q \<or> within q dest" for q
            using MkdirAll_changes [OF Inr, of q] within_butlast [OF w, of q] by blast
          show ?thesis
          proof (cases "os_Create fs1 (filepath_Join dest (Name f))")
            case (Inl e)
            with False no isfile Inr prems c1 [of p] show ?thesis by (auto simp: Let_def)
          next
            case cr: (Inr fs2)
            then have c2: "fs2 q \<noteq> fs1 q \<Longrightarrow> q = filepath_Join dest (Name f)" for q
              by (auto simp: os_Create_def split: if_splits)
            obtain e fs3 where cp: "io_Copy fs2 (filepath_Join dest (Name f)) f = (e, fs3)"
              by (cases "io_Copy fs2 (filepath_Join dest (Name f)) f") auto
            then have c3: "fs3 q \<noteq> fs2 q \<Longrightarrow> q = filepath_Join dest (Name f)" for q
              by (auto simp: io_Copy_def split: option.splits if_splits)
            have c: "fs3 q \<noteq> fs q \<Longrightarrow> within dest q \<or> within q dest" for q
              using c1 [of q] c2 [of q] c3 [of q] w
              by (cases "fs3 q = fs2 q"; cases "fs2 q = fs1 q") auto
            show ?thesis
            proof (cases e)
              case None
              with False no isfile Inr cr cp prems
              have "Unzip_files rest dest fs3 lg = (r, fs', lg')" by (simp add: Let_def)
              then have "fs' p \<noteq> fs3 p \<Longrightarrow> within dest p \<or> within p dest"
                using IH by blast
              with c [of p] prems(2) show ?thesis by (cases "fs' p = fs3 p") auto
            next
              case (Some err)
              with False no isfile Inr cr cp prems c [of p] show ?thesis
                by (auto simp: Let_def)
            qed
          qed
        qed
      qed
    qed
  qed
qed

text \<open>
  So does the whole of \<open>file.Unzip\<close>: a path whose content differs afterwards lies within
  the extraction root, or is a directory on the way to it.
\<close>

lemma Unzip_confined:
  assumes "Unzip src dest fs = (r, fs', lg)" and "fs' p \<noteq> fs p"
  shows "within dest p \<or> within p dest"
proof (cases src)
  case (Inl err)
  with assms show ?thesis by (simp add: Unzip_def)
next
  case (Inr files)
  with assms(1) have "Unzip_files files dest fs [] = (r, fs', lg)" by (simp add: Unzip_def)
  then show ?thesis using assms(2) by (rule Unzip_files_confined)
qed

section \<open>Package upgrade: the status channel\<close>

















section \<open>Package upgrade: what a run can do\<close>


lemma performed_tick [simp]: "performed (tick ui st) = performed st"
  by (simp add: tick_def deliver_def split: option.splits)



lemma consume_simps [simp]:
  "fst (consume ui (Status0\<lparr>Err := Some e\<rparr>)) = False"
  "fst (consume ui (Status0\<lparr>Text := t\<rparr>)) = True"
  "fst (consume ui (Status0\<lparr>Warn := w\<rparr>)) = True"
  "fst (consume ui (Status0\<lparr>Text := t, Done := True\<rparr>)) = False"
  by (simp_all add: consume_def Status0_def)











section \<open>Package upgrade: a successful cycle\<close>


lemma sends_append [simp]: "sends (xs @ ys) = sends xs @ sends ys"
  by (induction xs rule: sends.induct) auto

lemma effects_append [simp]: "effects (xs @ ys) = effects xs @ effects ys"
  by (induction xs rule: effects.induct) auto

lemma updater_scripts_append [simp]:
  "updater_scripts (xs @ ys) = updater_scripts xs @ updater_scripts ys"
  by (induction xs rule: updater_scripts.induct) auto





lemma steady_attempt [simp]: "steady ui (attempt r e)" "steady ui (attempt_sum r' e)"
  by (simp_all add: attempt_def attempt_sum_def split: option.splits sum.splits)























lemma effects_warnings [simp]:
  "effects (map (\<lambda>warning. Send (Status0\<lparr>Warn := warning\<rparr>)) ws) = []"
  by (induction ws) simp_all











section \<open>Package upgrade: the backup and its removal\<close>










section \<open>Package upgrade: the alerts\<close>






section \<open>Package upgrade: a run with a corrupted archive\<close>



end
